theory Spec2Isabelle
  imports Main
begin

section \<open>Python values used by the handlers\<close>

text \<open>
  The application is a single Flask module, \<^verbatim>\<open>app.py\<close>. Its handlers read form fields
  (strings), query three tables and answer with a redirect or a rendered template.
  Two Python operations on strings decide what the add-workout handler does:
  \<^verbatim>\<open>str.strip()\<close> and \<^verbatim>\<open>int(str)\<close>. The two uncaught exceptions that the handlers can
  raise are \<^verbatim>\<open>ValueError\<close> (from \<^verbatim>\<open>int\<close>) and \<^verbatim>\<open>IndexError\<close> (from list indexing).
\<close>

datatype error = ValueError | IndexError

definition isspace :: "char \<Rightarrow> bool" where
  \<comment> \<open>the ASCII characters that Python treats as whitespace\<close>
  "isspace c = (c \<in> set [CHR 0x09, CHR 0x0A, CHR 0x0B, CHR 0x0C, CHR 0x0D,
                           CHR 0x1C, CHR 0x1D, CHR 0x1E, CHR 0x1F, CHR 0x20])"

definition strip :: "string \<Rightarrow> string" where
  "strip s = rev (dropWhile isspace (rev (dropWhile isspace s)))"

definition isdigit :: "char \<Rightarrow> bool" where
  "isdigit c = (c \<in> set ''0123456789'')"

definition digit_value :: "char \<Rightarrow> int" where
  "digit_value c = int (of_char c) - 48"

text \<open>
  \<^verbatim>\<open>int(s)\<close> for a string: surrounding whitespace is dropped, an optional sign follows,
  then decimal digits, where single underscores may separate digits. Anything else
  raises \<^verbatim>\<open>ValueError\<close>. Strings are sequences of ASCII characters here; digits and
  spaces beyond ASCII, the interpreter's limit on the number of digits and the widths
  of the database columns are left out.
\<close>

fun int_digits :: "string \<Rightarrow> int \<Rightarrow> error + int" where
  "int_digits [] acc = Inr acc"
| "int_digits (c # cs) acc =
     (if isdigit c then int_digits cs (acc * 10 + digit_value c)
      else if c = CHR ''_'' then
        (case cs of
           [] \<Rightarrow> Inl ValueError
         | d # _ \<Rightarrow> if isdigit d then int_digits cs acc else Inl ValueError)
      else Inl ValueError)"

definition int_unsigned :: "string \<Rightarrow> error + int" where
  "int_unsigned cs =
     (case cs of
        [] \<Rightarrow> Inl ValueError
      | c # _ \<Rightarrow> if isdigit c then int_digits cs 0 else Inl ValueError)"

definition py_int :: "string \<Rightarrow> error + int" where
  "py_int s =
     (case strip s of
        [] \<Rightarrow> Inl ValueError
      | c # cs \<Rightarrow>
          if c = CHR ''-'' then map_sum id uminus (int_unsigned cs)
          else if c = CHR ''+'' then int_unsigned cs
          else int_unsigned (c # cs))"

definition getitem :: "'a list \<Rightarrow> nat \<Rightarrow> error + 'a" where
  \<comment> \<open>\<^verbatim>\<open>xs[i]\<close> for an index produced by \<^verbatim>\<open>range\<close>, hence never negative\<close>
  "getitem xs i = (if i < length xs then Inr (xs ! i) else Inl IndexError)"

section \<open>The schema\<close>

text \<open>
  The three model classes. Primary keys are integers handed out by the store when a row
  is committed; a transient object carries the placeholder 0 until then.
\<close>

record User =
  u_id :: int
  u_username :: string
  u_email :: string
  u_password_hash :: string

record Workout =
  w_id :: int
  w_user_id :: int
  w_date :: string
  w_start_time :: string
  w_duration :: string
  w_notes :: string

record Exercise =
  e_id :: int
  e_workout_id :: int
  e_body_part :: string
  e_name :: string
  e_sets :: int
  e_reps :: int

text \<open>The committed contents of the database; each table in insertion order.\<close>

record db =
  users :: "User list"
  workouts :: "Workout list"
  exercises :: "Exercise list"

definition next_id :: "int list \<Rightarrow> int" where
  \<comment> \<open>the key given to a new row: one above the largest key in the table\<close>
  "next_id ids = fold max ids 0 + 1"

definition insert_user :: "User \<Rightarrow> db \<Rightarrow> db" where
  "insert_user u d = d\<lparr>users := users d @ [u\<lparr>u_id := next_id (map u_id (users d))\<rparr>]\<rparr>"

definition insert_workout :: "Workout \<Rightarrow> db \<Rightarrow> db" where
  "insert_workout w d =
     d\<lparr>workouts := workouts d @ [w\<lparr>w_id := next_id (map w_id (workouts d))\<rparr>]\<rparr>"

definition insert_exercise :: "Exercise \<Rightarrow> db \<Rightarrow> db" where
  "insert_exercise e d =
     d\<lparr>exercises := exercises d @ [e\<lparr>e_id := next_id (map e_id (exercises d))\<rparr>]\<rparr>"

section \<open>Libraries the module calls\<close>

text \<open>
  The password hasher (\<^verbatim>\<open>werkzeug.security\<close>) and the e-mail validator are outside the
  module; the handlers are parameterised by them. \<^verbatim>\<open>generate_password_hash\<close> draws a
  random salt, which is made an argument here.
\<close>

record libs =
  generate_password_hash :: "string \<Rightarrow> string \<Rightarrow> string"
  check_password_hash :: "string \<Rightarrow> string \<Rightarrow> bool"
  Email :: "string \<Rightarrow> bool"

definition set_password :: "libs \<Rightarrow> string \<Rightarrow> User \<Rightarrow> string \<Rightarrow> User" where
  "set_password L salt self password =
     self\<lparr>u_password_hash := generate_password_hash L salt password\<rparr>"

definition check_password :: "libs \<Rightarrow> User \<Rightarrow> string \<Rightarrow> bool" where
  "check_password L self password = check_password_hash L (u_password_hash self) password"

section \<open>Requests, forms and responses\<close>

datatype http_method = GET | POST

record RegisterForm =
  rf_username :: string
  rf_email :: string
  rf_password :: string
  rf_password2 :: string

record LoginForm =
  lf_email :: string
  lf_password :: string

text \<open>
  The add-workout request carries the four fields of \<^verbatim>\<open>WorkoutForm\<close> and, read with
  \<^verbatim>\<open>request.form.getlist\<close>, four lists of exercise fields.
\<close>

record WorkoutForm =
  wf_date :: string
  wf_start_time :: string
  wf_duration :: string
  wf_notes :: string
  exercise_name :: "string list"
  exercise_body_part :: "string list"
  exercise_sets :: "string list"
  exercise_reps :: "string list"

text \<open>
  A request as the form classes see it: the HTTP method (the routes with a form accept
  \<^verbatim>\<open>GET\<close> and \<^verbatim>\<open>POST\<close>), whether the CSRF token checked by the form library is in
  order, and the submitted fields. \<^verbatim>\<open>validate_on_submit\<close> holds for a \<^verbatim>\<open>POST\<close> whose
  token is in order and whose fields pass the validators the form class lists.
\<close>

record 'f request =
  req_method :: http_method
  csrf_ok :: bool
  form :: 'f

definition DataRequired :: "string \<Rightarrow> bool" where
  "DataRequired data = (strip data \<noteq> [])"

definition is_submitted :: "'f request \<Rightarrow> bool" where
  "is_submitted r = (req_method r = POST)"

definition register_validate_on_submit :: "libs \<Rightarrow> RegisterForm request \<Rightarrow> bool" where
  "register_validate_on_submit L r =
     (is_submitted r \<and> csrf_ok r
      \<and> DataRequired (rf_username (form r))
      \<and> DataRequired (rf_email (form r)) \<and> Email L (rf_email (form r))
      \<and> DataRequired (rf_password (form r))
      \<and> rf_password (form r) = rf_password2 (form r)
      \<and> DataRequired (rf_password2 (form r)))"

definition login_validate_on_submit :: "libs \<Rightarrow> LoginForm request \<Rightarrow> bool" where
  "login_validate_on_submit L r =
     (is_submitted r \<and> csrf_ok r
      \<and> DataRequired (lf_email (form r)) \<and> Email L (lf_email (form r))
      \<and> DataRequired (lf_password (form r)))"

definition workout_validate_on_submit :: "WorkoutForm request \<Rightarrow> bool" where
  "workout_validate_on_submit r =
     (is_submitted r \<and> csrf_ok r
      \<and> DataRequired (wf_date (form r))
      \<and> DataRequired (wf_start_time (form r))
      \<and> DataRequired (wf_duration (form r)))"

datatype endpoint = To_index | To_register | To_login | To_dashboard

datatype category = Danger | Success | Message

text \<open>
  The flashed texts, by what they say: the e-mail address is taken, the user name is
  taken, the account was created, wrong e-mail or password, the workout was added, and
  the login manager's request to log in.
\<close>

datatype flash_text =
  Email_taken | Username_taken | Account_created | Bad_credentials | Workout_added
  | Please_log_in

datatype page =
  Index_html
  | Register_html RegisterForm
  | Login_html LoginForm
  | Dashboard_html User "Workout list"
  | Add_workout_html WorkoutForm
  | Workout_history_html "(Workout \<times> Exercise list) list"
  | View_workout_html Workout "Exercise list"

datatype body = Redirect endpoint | Render page | Not_found

record response =
  flashes :: "(flash_text \<times> category) list"
  body :: body

text \<open>
  What a request leaves behind: the committed database, the session identity (the id of
  the logged-in user, if any) and either the response or the exception that escaped.
\<close>

record result =
  db_after :: db
  session_after :: "int option"
  outcome :: "error + response"

definition respond :: "db \<Rightarrow> int option \<Rightarrow> (flash_text \<times> category) list \<Rightarrow> body \<Rightarrow> result" where
  "respond d s fl b = \<lparr>db_after = d, session_after = s, outcome = Inr \<lparr>flashes = fl, body = b\<rparr>\<rparr>"

section \<open>Session identity\<close>

definition load_user :: "db \<Rightarrow> int \<Rightarrow> User option" where
  "load_user d user_id = find (\<lambda>u. u_id u = user_id) (users d)"

definition current_user :: "db \<Rightarrow> int option \<Rightarrow> User option" where
  "current_user d s = (case s of None \<Rightarrow> None | Some user_id \<Rightarrow> load_user d user_id)"

text \<open>
  Modelled from the spec: the \<^verbatim>\<open>login_required\<close> decorator belongs to the login manager,
  which is not part of the module. With \<^verbatim>\<open>login_view = "login"\<close> a request without an
  authenticated user is answered by a redirect to the login page and the view function
  is not called.
\<close>

definition unauthorized :: "db \<Rightarrow> int option \<Rightarrow> result" where
  "unauthorized d s = respond d s [(Please_log_in, Message)] (Redirect To_login)"

definition login_required :: "db \<Rightarrow> int option \<Rightarrow> (User \<Rightarrow> result) \<Rightarrow> result" where
  "login_required d s view =
     (case current_user d s of None \<Rightarrow> unauthorized d s | Some u \<Rightarrow> view u)"

section \<open>The handlers\<close>

definition index :: "db \<Rightarrow> int option \<Rightarrow> result" where
  "index d s = respond d s [] (Render Index_html)"

definition register :: "libs \<Rightarrow> db \<Rightarrow> int option \<Rightarrow> string \<Rightarrow> RegisterForm request \<Rightarrow> result" where
  "register L d s salt r =
     (if register_validate_on_submit L r then
        (case find (\<lambda>u. u_email u = rf_email (form r)) (users d) of
           Some existing_user \<Rightarrow> respond d s [(Email_taken, Danger)] (Redirect To_register)
         | None \<Rightarrow>
             (case find (\<lambda>u. u_username u = rf_username (form r)) (users d) of
                Some existing_username \<Rightarrow>
                  respond d s [(Username_taken, Danger)] (Redirect To_register)
              | None \<Rightarrow>
                  (let user = \<lparr>u_id = 0, u_username = rf_username (form r),
                                u_email = rf_email (form r), u_password_hash = []\<rparr>;
                       user = set_password L salt user (rf_password (form r))
                   in respond (insert_user user d) s [(Account_created, Success)]
                        (Redirect To_login))))
      else respond d s [] (Render (Register_html (form r))))"

definition login :: "libs \<Rightarrow> db \<Rightarrow> int option \<Rightarrow> LoginForm request \<Rightarrow> result" where
  "login L d s r =
     (if login_validate_on_submit L r then
        (case find (\<lambda>u. u_email u = lf_email (form r)) (users d) of
           Some user \<Rightarrow>
             if check_password L user (lf_password (form r))
             then respond d (Some (u_id user)) [] (Redirect To_dashboard)
             else respond d s [(Bad_credentials, Danger)] (Render (Login_html (form r)))
         | None \<Rightarrow> respond d s [(Bad_credentials, Danger)] (Render (Login_html (form r))))
      else respond d s [] (Render (Login_html (form r))))"

definition logout :: "db \<Rightarrow> int option \<Rightarrow> result" where
  "logout d s = login_required d s (\<lambda>user. respond d None [] (Redirect To_index))"

definition dashboard :: "db \<Rightarrow> int option \<Rightarrow> result" where
  "dashboard d s =
     login_required d s (\<lambda>user.
       respond d s []
         (Render (Dashboard_html user (filter (\<lambda>w. w_user_id w = u_id user) (workouts d)))))"

text \<open>
  One pass of the loop body of \<^verbatim>\<open>add_workout\<close> for index \<open>i\<close>: \<open>None\<close> when the row is
  skipped, the new \<^verbatim>\<open>Exercise\<close> otherwise. The keyword arguments are evaluated in the
  order they are written: body part, name, sets, reps.
\<close>

definition exercise_at :: "int \<Rightarrow> WorkoutForm \<Rightarrow> nat \<Rightarrow> error + Exercise option" where
  "exercise_at workout_id f i =
     (if strip (exercise_name f ! i) \<noteq> [] then
        (case getitem (exercise_body_part f) i of
           Inl e \<Rightarrow> Inl e
         | Inr body_part \<Rightarrow>
             (case getitem (exercise_sets f) i of
                Inl e \<Rightarrow> Inl e
              | Inr sets_str \<Rightarrow>
                  (case py_int sets_str of
                     Inl e \<Rightarrow> Inl e
                   | Inr sets \<Rightarrow>
                       (case getitem (exercise_reps f) i of
                          Inl e \<Rightarrow> Inl e
                        | Inr reps_str \<Rightarrow>
                            (case py_int reps_str of
                               Inl e \<Rightarrow> Inl e
                             | Inr reps \<Rightarrow>
                                 Inr (Some \<lparr>e_id = 0, e_workout_id = workout_id,
                                            e_body_part = body_part,
                                            e_name = exercise_name f ! i,
                                            e_sets = sets, e_reps = reps\<rparr>))))))
      else Inr None)"

text \<open>
  The loop over \<^verbatim>\<open>range(len(exercise_names))\<close>; \<open>pending\<close> are the objects added to the
  database session so far, none of them committed.
\<close>

fun add_exercises :: "int \<Rightarrow> WorkoutForm \<Rightarrow> nat list \<Rightarrow> Exercise list \<Rightarrow> error + Exercise list" where
  "add_exercises workout_id f [] pending = Inr pending"
| "add_exercises workout_id f (i # is) pending =
     (case exercise_at workout_id f i of
        Inl e \<Rightarrow> Inl e
      | Inr None \<Rightarrow> add_exercises workout_id f is pending
      | Inr (Some exercise) \<Rightarrow> add_exercises workout_id f is (pending @ [exercise]))"

definition commit_exercises :: "Exercise list \<Rightarrow> db \<Rightarrow> db" where
  "commit_exercises pending d = fold insert_exercise pending d"

text \<open>
  The workout is committed before the exercise fields are read. When the loop raises,
  the second commit is never reached and the pending exercises are dropped with the
  database session; the committed workout stays.
\<close>

definition add_workout :: "db \<Rightarrow> int option \<Rightarrow> WorkoutForm request \<Rightarrow> result" where
  "add_workout d s r =
     login_required d s (\<lambda>user.
       if workout_validate_on_submit r then
         (let workout = \<lparr>w_id = 0, w_user_id = u_id user, w_date = wf_date (form r),
                          w_start_time = wf_start_time (form r),
                          w_duration = wf_duration (form r), w_notes = wf_notes (form r)\<rparr>;
              d1 = insert_workout workout d;
              workout_id = w_id (last (workouts d1))
          in case add_exercises workout_id (form r) [0..<length (exercise_name (form r))] [] of
               Inl e \<Rightarrow> \<lparr>db_after = d1, session_after = s, outcome = Inl e\<rparr>
             | Inr pending \<Rightarrow>
                 respond (commit_exercises pending d1) s [(Workout_added, Success)]
                   (Redirect To_dashboard))
       else respond d s [] (Render (Add_workout_html (form r))))"

definition workout_history :: "db \<Rightarrow> int option \<Rightarrow> result" where
  "workout_history d s =
     login_required d s (\<lambda>user.
       respond d s []
         (Render (Workout_history_html
            (map (\<lambda>w. (w, filter (\<lambda>e. e_workout_id e = w_id w) (exercises d)))
               (filter (\<lambda>w. w_user_id w = u_id user) (workouts d))))))"

definition view_workout :: "db \<Rightarrow> int option \<Rightarrow> int \<Rightarrow> result" where
  "view_workout d s workout_id =
     login_required d s (\<lambda>user.
       case find (\<lambda>w. w_id w = workout_id) (workouts d) of
         None \<Rightarrow> respond d s [] Not_found
       | Some workout \<Rightarrow>
           respond d s []
             (Render (View_workout_html workout
                (filter (\<lambda>e. e_workout_id e = w_id workout) (exercises d)))))"

section \<open>Rows of the add-workout form\<close>








section \<open>Sample data\<close>

text \<open>
  A small database, a stand-in for the libraries and some requests, on which the
  handlers can be run. The stand-in hasher keeps the plaintext; it only serves to
  evaluate the handlers on examples.
\<close>

definition alice :: User where
  "alice = \<lparr>u_id = 1, u_username = ''alice'', u_email = ''alice@example.com'',
             u_password_hash = ''wonderland''\<rparr>"

definition bob :: User where
  "bob = \<lparr>u_id = 2, u_username = ''bob'', u_email = ''bob@example.com'',
           u_password_hash = ''builder''\<rparr>"

definition legs_day :: Workout where
  "legs_day = \<lparr>w_id = 1, w_user_id = 1, w_date = ''2024-05-01'', w_start_time = ''18:00'',
                w_duration = ''60'', w_notes = []\<rparr>"

definition push_day :: Workout where
  "push_day = \<lparr>w_id = 2, w_user_id = 2, w_date = ''2024-05-02'', w_start_time = ''07:30'',
                w_duration = ''45'', w_notes = ''heavy''\<rparr>"

definition squat :: Exercise where
  "squat = \<lparr>e_id = 1, e_workout_id = 1, e_body_part = ''legs'', e_name = ''squat'',
             e_sets = 5, e_reps = 5\<rparr>"

definition bench :: Exercise where
  "bench = \<lparr>e_id = 2, e_workout_id = 2, e_body_part = ''chest'', e_name = ''bench press'',
             e_sets = 3, e_reps = 8\<rparr>"

definition sample_db :: db where
  "sample_db = \<lparr>users = [alice, bob], workouts = [legs_day, push_day],
                 exercises = [squat, bench]\<rparr>"

definition alice_only :: db where
  "alice_only = \<lparr>users = [alice], workouts = [legs_day], exercises = [squat]\<rparr>"

definition plain_libs :: libs where
  "plain_libs = \<lparr>generate_password_hash = (\<lambda>salt password. password),
                  check_password_hash = (\<lambda>pwhash password. pwhash = password),
                  Email = (\<lambda>data. CHR ''@'' \<in> set data)\<rparr>"

definition register_post :: "string \<Rightarrow> string \<Rightarrow> string \<Rightarrow> RegisterForm request" where
  "register_post username email password =
     \<lparr>req_method = POST, csrf_ok = True,
      form = \<lparr>rf_username = username, rf_email = email, rf_password = password,
               rf_password2 = password\<rparr>\<rparr>"

definition login_post :: "string \<Rightarrow> string \<Rightarrow> LoginForm request" where
  "login_post email password =
     \<lparr>req_method = POST, csrf_ok = True, form = \<lparr>lf_email = email, lf_password = password\<rparr>\<rparr>"

definition workout_post ::
  "string list \<Rightarrow> string list \<Rightarrow> string list \<Rightarrow> string list \<Rightarrow> WorkoutForm request" where
  "workout_post names body_parts sets reps =
     \<lparr>req_method = POST, csrf_ok = True,
      form = \<lparr>wf_date = ''2024-05-03'', wf_start_time = ''19:00'', wf_duration = ''50'',
               wf_notes = [], exercise_name = names, exercise_body_part = body_parts,
               exercise_sets = sets, exercise_reps = reps\<rparr>\<rparr>"





section \<open>Basic facts\<close>

lemmas sample_defs =
  sample_db_def alice_only_def alice_def bob_def legs_day_def push_day_def squat_def
  bench_def plain_libs_def register_post_def login_post_def workout_post_def

lemmas validate_defs =
  register_validate_on_submit_def login_validate_on_submit_def
  workout_validate_on_submit_def is_submitted_def DataRequired_def strip_def isspace_def


lemma respond_sel [simp]:
  "db_after (respond d s fl b) = d"
  "session_after (respond d s fl b) = s"
  "outcome (respond d s fl b) = Inr \<lparr>flashes = fl, body = b\<rparr>"
  by (simp_all add: respond_def)

lemma find_key_distinct:
  "distinct (map f xs) \<Longrightarrow> x \<in> set xs \<Longrightarrow> find (\<lambda>y. f y = f x) xs = Some x"
  by (induction xs) (auto simp: image_iff)

lemma find_key_absent:
  "k \<notin> f ` set xs \<Longrightarrow> find (\<lambda>y. f y = k) xs = None"
  by (auto simp: find_None_iff)

lemma find_present:
  "k \<in> f ` set xs \<Longrightarrow> \<exists>x. find (\<lambda>y. f y = k) xs = Some x"
  by (cases "find (\<lambda>y. f y = k) xs") (auto simp: find_None_iff)


section \<open>Facts about the exercise loop\<close>


























section \<open>Viewing a workout\<close>

text \<open>
  Claim C1. For a logged-in user, \<^verbatim>\<open>view_workout\<close> answers every id that is the key of a
  stored workout with that workout and the exercises that reference it, whoever owns
  the workout: the owner column is never compared with the current user. An id that is
  no key of the table gives the not-found response. Keys of the workout table are
  unique.
\<close>

theorem view_workout_any_owner:
  assumes "current_user d s = Some u" and "distinct (map w_id (workouts d))"
  shows "(\<forall>w \<in> set (workouts d).
            view_workout d s (w_id w) =
              respond d s [] (Render (View_workout_html w
                 (filter (\<lambda>e. e_workout_id e = w_id w) (exercises d)))))
         \<and> (\<forall>k. k \<notin> w_id ` set (workouts d) \<longrightarrow>
               view_workout d s k = respond d s [] Not_found)"
  using assms
  by (simp add: view_workout_def login_required_def find_key_distinct find_key_absent)

text \<open>Alice, logged in, opens the workout that belongs to Bob, and an id that is not stored.\<close>

theorem view_workout_any_owner_witness:
  "current_user sample_db (Some 1) = Some alice
   \<and> distinct (map w_id (workouts sample_db))
   \<and> push_day \<in> set (workouts sample_db) \<and> w_user_id push_day \<noteq> u_id alice
   \<and> view_workout sample_db (Some 1) 2 =
       respond sample_db (Some 1) [] (Render (View_workout_html push_day [bench]))
   \<and> view_workout sample_db (Some 1) 3 = respond sample_db (Some 1) [] Not_found"
proof -
  have h1: "current_user sample_db (Some 1) = Some alice"
    by (simp add: current_user_def load_user_def sample_defs)
  have h2: "distinct (map w_id (workouts sample_db))"
    by (simp add: sample_defs)
  have m: "push_day \<in> set (workouts sample_db)"
    by (simp add: sample_db_def)
  have n: "3 \<notin> w_id ` set (workouts sample_db)"
    by (simp add: sample_defs)
  have e: "filter (\<lambda>e. e_workout_id e = w_id push_day) (exercises sample_db) = [bench]"
    by (simp add: sample_defs)
  have w: "w_user_id push_day \<noteq> u_id alice"
    by (simp add: sample_defs)
  have k: "w_id push_day = 2"
    by (simp add: push_day_def)
  from view_workout_any_owner [OF h1 h2] m n e k
  have "view_workout sample_db (Some 1) 2 =
          respond sample_db (Some 1) [] (Render (View_workout_html push_day [bench]))"
    and "view_workout sample_db (Some 1) 3 = respond sample_db (Some 1) [] Not_found"
    by force+
  with h1 h2 m w show ?thesis by simp
qed

section \<open>Registration\<close>

text \<open>
  Claim C3. A registration request whose e-mail address is that of a stored user creates
  no user: the database is left as it was. When the form validates, the answer is the
  flashed message that the address is taken and a redirect back to the registration
  page; when it does not, the registration page is rendered again with the form.
\<close>

theorem register_duplicate_email:
  assumes "rf_email (form r) \<in> u_email ` set (users d)"
  shows "register L d s salt r =
           (if register_validate_on_submit L r
            then respond d s [(Email_taken, Danger)] (Redirect To_register)
            else respond d s [] (Render (Register_html (form r))))
         \<and> users (db_after (register L d s salt r)) = users d
         \<and> db_after (register L d s salt r) = d"
proof -
  from find_present [OF assms] obtain x
    where "find (\<lambda>u. u_email u = rf_email (form r)) (users d) = Some x" ..
  then show ?thesis by (simp add: register_def)
qed

theorem register_duplicate_email_witness:
  "rf_email (form (register_post ''alice2'' ''alice@example.com'' ''secret''))
      \<in> u_email ` set (users sample_db)
   \<and> register plain_libs sample_db None ''salt''
        (register_post ''alice2'' ''alice@example.com'' ''secret'') =
       respond sample_db None [(Email_taken, Danger)] (Redirect To_register)
   \<and> users (db_after (register plain_libs sample_db None ''salt''
        (register_post ''alice2'' ''alice@example.com'' ''secret''))) = [alice, bob]"
proof -
  have h: "rf_email (form (register_post ''alice2'' ''alice@example.com'' ''secret''))
      \<in> u_email ` set (users sample_db)"
    by (simp add: sample_defs)
  have v: "register_validate_on_submit plain_libs
      (register_post ''alice2'' ''alice@example.com'' ''secret'')"
    by (simp add: sample_defs validate_defs)
  have u: "users sample_db = [alice, bob]"
    by (simp add: sample_db_def)
  from register_duplicate_email [OF h, of plain_libs None "''salt''"] h v u
  show ?thesis by simp
qed

text \<open>
  Claim C4. The handler looks for the e-mail address first and for the user name second.
  A valid submission with both taken is answered with the message about the address.
  The message about the user name is the answer exactly when the form validates, the
  address is free and the name is taken.
\<close>

theorem register_checks_email_first:
  "(register_validate_on_submit L r
      \<and> rf_email (form r) \<in> u_email ` set (users d)
      \<and> rf_username (form r) \<in> u_username ` set (users d) \<longrightarrow>
        outcome (register L d s salt r) =
          Inr \<lparr>flashes = [(Email_taken, Danger)], body = Redirect To_register\<rparr>)
   \<and> (outcome (register L d s salt r) =
          Inr \<lparr>flashes = [(Username_taken, Danger)], body = Redirect To_register\<rparr>
        \<longleftrightarrow> register_validate_on_submit L r
            \<and> rf_email (form r) \<notin> u_email ` set (users d)
            \<and> rf_username (form r) \<in> u_username ` set (users d))"
proof (cases "rf_email (form r) \<in> u_email ` set (users d)")
  case True
  from find_present [OF True] obtain x
    where "find (\<lambda>u. u_email u = rf_email (form r)) (users d) = Some x" ..
  with True show ?thesis by (simp add: register_def)
next
  case False
  note email_free = find_key_absent [OF False]
  show ?thesis
  proof (cases "rf_username (form r) \<in> u_username ` set (users d)")
    case True
    from find_present [OF True] obtain x
      where "find (\<lambda>u. u_username u = rf_username (form r)) (users d) = Some x" ..
    with True False email_free show ?thesis by (simp add: register_def)
  next
    case free: False
    with False email_free find_key_absent [OF free] show ?thesis
      by (simp add: register_def Let_def)
  qed
qed

text \<open>
  Two submissions under Bob's user name: with Alice's address both are taken and the
  address is reported; with a fresh address the name is reported.
\<close>

theorem register_checks_email_first_witness:
  "register_validate_on_submit plain_libs
      (register_post ''bob'' ''alice@example.com'' ''secret'')
   \<and> rf_email (form (register_post ''bob'' ''alice@example.com'' ''secret''))
        \<in> u_email ` set (users sample_db)
   \<and> rf_username (form (register_post ''bob'' ''alice@example.com'' ''secret''))
        \<in> u_username ` set (users sample_db)
   \<and> outcome (register plain_libs sample_db None ''salt''
          (register_post ''bob'' ''alice@example.com'' ''secret'')) =
        Inr \<lparr>flashes = [(Email_taken, Danger)], body = Redirect To_register\<rparr>
   \<and> outcome (register plain_libs sample_db None ''salt''
          (register_post ''bob'' ''carol@example.com'' ''secret'')) =
        Inr \<lparr>flashes = [(Username_taken, Danger)], body = Redirect To_register\<rparr>"
proof -
  have v: "register_validate_on_submit plain_libs
      (register_post ''bob'' ''alice@example.com'' ''secret'')"
    by (simp add: sample_defs validate_defs)
  have e: "rf_email (form (register_post ''bob'' ''alice@example.com'' ''secret''))
      \<in> u_email ` set (users sample_db)"
    by (simp add: sample_defs)
  have n: "rf_username (form (register_post ''bob'' ''alice@example.com'' ''secret''))
      \<in> u_username ` set (users sample_db)"
    by (simp add: sample_defs)
  have v': "register_validate_on_submit plain_libs
      (register_post ''bob'' ''carol@example.com'' ''secret'')"
    by (simp add: sample_defs validate_defs)
  have e': "rf_email (form (register_post ''bob'' ''carol@example.com'' ''secret''))
      \<notin> u_email ` set (users sample_db)"
    by (simp add: sample_defs)
  have n': "rf_username (form (register_post ''bob'' ''carol@example.com'' ''secret''))
      \<in> u_username ` set (users sample_db)"
    by (simp add: sample_defs)
  from register_checks_email_first
         [of plain_libs "register_post ''bob'' ''alice@example.com'' ''secret''" sample_db
            None "''salt''"]
       register_checks_email_first
         [of plain_libs "register_post ''bob'' ''carol@example.com'' ''secret''" sample_db
            None "''salt''"]
       v e n v' e' n'
  show ?thesis by blast
qed



section \<open>Login\<close>

text \<open>
  Claim C5. Take one valid login submission and two databases: in the first no user has
  the submitted address, in the second a user has it but the password does not verify.
  Both runs give the same response, the one flashed message about wrong credentials
  over the login page, and neither run changes the session identity.
\<close>

theorem login_failure_indistinguishable:
  assumes "login_validate_on_submit L r"
    and "lf_email (form r) \<notin> u_email ` set (users d1)"
    and "find (\<lambda>u. u_email u = lf_email (form r)) (users d2) = Some u"
    and "\<not> check_password L u (lf_password (form r))"
  shows "outcome (login L d1 s1 r) = outcome (login L d2 s2 r)
         \<and> outcome (login L d1 s1 r) =
             Inr \<lparr>flashes = [(Bad_credentials, Danger)], body = Render (Login_html (form r))\<rparr>
         \<and> session_after (login L d1 s1 r) = s1
         \<and> session_after (login L d2 s2 r) = s2"
  using assms find_key_absent [of "lf_email (form r)" u_email "users d1"]
  by (simp add: login_def)

theorem login_failure_indistinguishable_witness:
  "login_validate_on_submit plain_libs (login_post ''bob@example.com'' ''guess'')
   \<and> lf_email (form (login_post ''bob@example.com'' ''guess''))
        \<notin> u_email ` set (users alice_only)
   \<and> find (\<lambda>u. u_email u = lf_email (form (login_post ''bob@example.com'' ''guess'')))
         (users sample_db) = Some bob
   \<and> \<not> check_password plain_libs bob
         (lf_password (form (login_post ''bob@example.com'' ''guess'')))
   \<and> outcome (login plain_libs alice_only None (login_post ''bob@example.com'' ''guess'')) =
       outcome (login plain_libs sample_db None (login_post ''bob@example.com'' ''guess''))
   \<and> session_after
         (login plain_libs alice_only None (login_post ''bob@example.com'' ''guess'')) = None
   \<and> session_after
         (login plain_libs sample_db None (login_post ''bob@example.com'' ''guess'')) = None"
proof -
  have v: "login_validate_on_submit plain_libs (login_post ''bob@example.com'' ''guess'')"
    by (simp add: sample_defs validate_defs)
  have a: "lf_email (form (login_post ''bob@example.com'' ''guess''))
      \<notin> u_email ` set (users alice_only)"
    by (simp add: sample_defs)
  have b: "find (\<lambda>u. u_email u = lf_email (form (login_post ''bob@example.com'' ''guess'')))
         (users sample_db) = Some bob"
    by (simp add: sample_defs)
  have c: "\<not> check_password plain_libs bob
      (lf_password (form (login_post ''bob@example.com'' ''guess'')))"
    by (simp add: sample_defs check_password_def)
  from login_failure_indistinguishable [OF v a b c, of None None] v a b c
  show ?thesis by simp
qed

section \<open>Dashboard and protected routes\<close>

text \<open>
  Claim C8. For a logged-in user the dashboard renders the stored workouts whose owner
  column is the user's id: all of them, no others, in the order of the table, nothing
  cut off. The history page lists the same workouts, each with its exercises.
\<close>

theorem dashboard_lists_own_workouts:
  assumes "current_user d s = Some u"
  shows "dashboard d s =
           respond d s []
             (Render (Dashboard_html u (filter (\<lambda>w. w_user_id w = u_id u) (workouts d))))
         \<and> set (filter (\<lambda>w. w_user_id w = u_id u) (workouts d)) =
             {w \<in> set (workouts d). w_user_id w = u_id u}
         \<and> workout_history d s =
             respond d s []
               (Render (Workout_history_html
                  (map (\<lambda>w. (w, filter (\<lambda>e. e_workout_id e = w_id w) (exercises d)))
                     (filter (\<lambda>w. w_user_id w = u_id u) (workouts d)))))"
  using assms by (simp add: dashboard_def workout_history_def login_required_def)

theorem dashboard_lists_own_workouts_witness:
  "current_user sample_db (Some 1) = Some alice
   \<and> dashboard sample_db (Some 1) =
       respond sample_db (Some 1) [] (Render (Dashboard_html alice [legs_day]))
   \<and> workout_history sample_db (Some 1) =
       respond sample_db (Some 1) [] (Render (Workout_history_html [(legs_day, [squat])]))"
proof -
  have h: "current_user sample_db (Some 1) = Some alice"
    by (simp add: current_user_def load_user_def sample_defs)
  have w: "filter (\<lambda>w. w_user_id w = u_id alice) (workouts sample_db) = [legs_day]"
    by (simp add: sample_defs)
  have e: "filter (\<lambda>e. e_workout_id e = w_id legs_day) (exercises sample_db) = [squat]"
    by (simp add: sample_defs)
  from dashboard_lists_own_workouts [OF h] h w e show ?thesis by simp
qed

text \<open>
  Claim C9. Without an authenticated user each of the five protected routes (logout,
  dashboard, add-workout, workout history, view-workout) gives the login manager's
  answer: a redirect to the login page. The view function is not entered, so the answer
  does not depend on the request's form or id, and database and session are untouched.
\<close>

theorem protected_routes_redirect_anonymous:
  assumes "current_user d s = None"
  shows "logout d s = unauthorized d s
         \<and> dashboard d s = unauthorized d s
         \<and> add_workout d s r = unauthorized d s
         \<and> workout_history d s = unauthorized d s
         \<and> view_workout d s k = unauthorized d s
         \<and> db_after (unauthorized d s) = d
         \<and> session_after (unauthorized d s) = s
         \<and> (\<exists>fl. outcome (unauthorized d s) = Inr \<lparr>flashes = fl, body = Redirect To_login\<rparr>)"
  using assms
  by (simp add: logout_def dashboard_def add_workout_def workout_history_def
      view_workout_def login_required_def unauthorized_def)

theorem protected_routes_redirect_anonymous_witness:
  "current_user sample_db None = None
   \<and> logout sample_db None = unauthorized sample_db None
   \<and> dashboard sample_db None = unauthorized sample_db None
   \<and> add_workout sample_db None (workout_post [''row''] [''back''] [''3''] [''10''])
       = unauthorized sample_db None
   \<and> workout_history sample_db None = unauthorized sample_db None
   \<and> view_workout sample_db None 1 = unauthorized sample_db None
   \<and> db_after (unauthorized sample_db None) = sample_db
   \<and> outcome (unauthorized sample_db None) =
       Inr \<lparr>flashes = [(Please_log_in, Message)], body = Redirect To_login\<rparr>"
proof -
  have h: "current_user sample_db None = None"
    by (simp add: current_user_def)
  from protected_routes_redirect_anonymous [OF h] h show ?thesis
    by (simp add: unauthorized_def)
qed

section \<open>Adding a workout\<close>








end
